theory Spec2Isabelle
  imports Main
begin

section \<open>Exceptions and the outside world\<close>

text \<open>
  The exercises cpp05/ex01 .. ex03 nest their exception classes inside \<open>Form\<close>, \<open>AForm\<close>,
  \<open>Bureaucrat\<close> and \<open>Intern\<close>. Classes of the same name behave alike, so one constructor
  stands for each name. A \<open>throw\<close> is the left injection of a sum.
\<close>

datatype exn =
    GradeTooHighException
  | GradeTooLowException
  | FormNotSignedException
  | FormNotFoundException

text \<open>
  Everything outside the objects: the lines sent to \<open>std::cout\<close> (each statement of the
  source ends its line with \<open>std::endl\<close>), the value \<open>time(NULL)\<close> returns, the C
  library's generator (\<open>rand_gen s k\<close> is the value of the \<open>k\<close>-th call of \<open>rand()\<close> after
  \<open>srand(s)\<close>), and the file system: the bytes of every file, the paths on which the
  program has tried to open an output stream, in order, whether such a stream can be opened
  on a path, and how a write ends. \<open>fs_write w path old data\<close> is the number of bytes of
  \<open>data\<close> the system takes when the file at \<open>path\<close> holds \<open>old\<close>; a write has failed when
  that is less than the length of \<open>data\<close> (disk full, file size limit).
\<close>

record world =
  cout :: "string list"
  files :: "string \<rightharpoonup> string"
  opens :: "string list"
  can_open :: "string \<Rightarrow> bool"
  fs_write :: "string \<Rightarrow> string \<Rightarrow> string \<Rightarrow> nat"
  time_now :: int
  rand_gen :: "nat \<Rightarrow> nat \<Rightarrow> nat"
  rand_seed :: nat
  rand_drawn :: nat

type_synonym 'a result = "(exn + 'a) \<times> world"

definition cout_line :: "string \<Rightarrow> world \<Rightarrow> world" where
  \<comment> \<open>\<open>std::cout << ... << std::endl\<close>\<close>
  "cout_line s w = w\<lparr>cout := cout w @ [s]\<rparr>"

definition srand :: "nat \<Rightarrow> world \<Rightarrow> world" where
  "srand s w = w\<lparr>rand_seed := s, rand_drawn := 0\<rparr>"

definition rand :: "world \<Rightarrow> nat \<times> world" where
  "rand w = (rand_gen w (rand_seed w) (rand_drawn w), w\<lparr>rand_drawn := rand_drawn w + 1\<rparr>)"

definition c_str :: "string \<Rightarrow> string" where
  \<comment> \<open>\<open>std::string::c_str()\<close> read as a C string: it ends at the first NUL byte\<close>
  "c_str s = takeWhile (\<lambda>c. c \<noteq> CHR 0x00) s"

text \<open>
  An \<open>std::ofstream\<close>: the path it was opened on, \<open>is_open()\<close>, and \<open>fail()\<close>. Once the
  stream has failed, every later insertion does nothing; the stream never throws (no
  exception mask is set).
\<close>

record ofstream =
  os_path :: string
  os_open :: bool
  os_fail :: bool

definition ofstream_ctor :: "string \<Rightarrow> world \<Rightarrow> ofstream \<times> world" where
  \<comment> \<open>\<open>std::ofstream file(path)\<close>: a successful open truncates the file\<close>
  "ofstream_ctor path w =
     (let w1 = w\<lparr>opens := opens w @ [path]\<rparr>
      in if can_open w path then
           (\<lparr>os_path = path, os_open = True, os_fail = False\<rparr>,
            w1\<lparr>files := (files w)(path \<mapsto> [])\<rparr>)
         else (\<lparr>os_path = path, os_open = False, os_fail = True\<rparr>, w1))"

definition ofstream_line :: "ofstream \<times> world \<Rightarrow> string \<Rightarrow> ofstream \<times> world" where
  \<comment> \<open>\<open>file << s << std::endl\<close>: the line and its newline are flushed to the file; when
      the system takes only a part, that part is in the file and the stream has failed\<close>
  "ofstream_line fw s =
     (case fw of (file, w) \<Rightarrow>
        if os_fail file then (file, w)
        else
          (let data = s @ [CHR 0x0A];
               old = (case files w (os_path file) of None \<Rightarrow> [] | Some c \<Rightarrow> c);
               n = min (fs_write w (os_path file) old data) (length data)
           in (file\<lparr>os_fail := n < length data\<rparr>,
               w\<lparr>files := (files w)(os_path file \<mapsto> old @ take n data)\<rparr>)))"

definition text_of :: "string list \<Rightarrow> string" where
  \<comment> \<open>the bytes of a list of lines, each ended by a newline\<close>
  "text_of ls = concat (map (\<lambda>l. l @ [CHR 0x0A]) ls)"

section \<open>Bureaucrat\<close>

text \<open>
  Bureaucrat.hpp declares the members \<open>_name\<close> and \<open>_grade\<close> and the methods; the file that
  implements them is not part of the sources.
\<close>

record Bureaucrat =
  b_name :: string
  b_grade :: int

text \<open>Modelled from the spec: \<open>Bureaucrat::getGrade\<close> (body missing) returns the grade.\<close>

definition getGrade :: "Bureaucrat \<Rightarrow> int" where
  "getGrade b = b_grade b"

text \<open>
  Modelled from the spec: \<open>Bureaucrat::Bureaucrat(name, grade)\<close> (body missing).
  ``fails GradeTooHigh if grade < 1; fails GradeTooLow if grade > 150; otherwise returns an
  Actor with that grade.''
\<close>

definition Bureaucrat_ctor :: "string \<Rightarrow> int \<Rightarrow> exn + Bureaucrat" where
  "Bureaucrat_ctor name grade =
     (if grade < 1 then Inl GradeTooHighException
      else if grade > 150 then Inl GradeTooLowException
      else Inr \<lparr>b_name = name, b_grade = grade\<rparr>)"

text \<open>
  Modelled from the spec: \<open>Bureaucrat::incrementGrade\<close> (body missing).
  ``computes grade - 1; fails GradeTooHigh if the result is < 1; otherwise commits the
  decrease.'' The second component is the object after the call.
\<close>

definition incrementGrade :: "Bureaucrat \<Rightarrow> (exn + unit) \<times> Bureaucrat" where
  "incrementGrade b =
     (if b_grade b - 1 < 1 then (Inl GradeTooHighException, b)
      else (Inr (), b\<lparr>b_grade := b_grade b - 1\<rparr>))"

text \<open>
  Modelled from the spec: \<open>Bureaucrat::decrementGrade\<close> (body missing).
  ``computes grade + 1; fails GradeTooLow if the result is > 150; otherwise commits.''
\<close>

definition decrementGrade :: "Bureaucrat \<Rightarrow> (exn + unit) \<times> Bureaucrat" where
  "decrementGrade b =
     (if b_grade b + 1 > 150 then (Inl GradeTooLowException, b)
      else (Inr (), b\<lparr>b_grade := b_grade b + 1\<rparr>))"

datatype grade_op = Increment | Decrement

fun grade_step :: "Bureaucrat \<Rightarrow> grade_op \<Rightarrow> Bureaucrat" where
  "grade_step b Increment = snd (incrementGrade b)"
| "grade_step b Decrement = snd (decrementGrade b)"

section \<open>Form (ex01) and AForm (ex02, ex03)\<close>

text \<open>
  Both classes declare the same four members: \<open>const std::string _name\<close>,
  \<open>bool _signed\<close>, \<open>const int _gradeToSign\<close>, \<open>const int _gradeToExecute\<close>. One record
  serves both; the methods are embedded once per class.
\<close>

record Form =
  f_name :: string
  f_signed :: bool
  f_gradeToSign :: int
  f_gradeToExecute :: int

subsection \<open>Form.cpp\<close>

definition Form_default :: "world \<Rightarrow> Form \<times> world" where
  "Form_default w =
     (\<lparr>f_name = ''Default Form'', f_signed = False, f_gradeToSign = 150, f_gradeToExecute = 150\<rparr>,
      cout_line ''Form default constructor called'' w)"

definition Form_ctor :: "string \<Rightarrow> int \<Rightarrow> int \<Rightarrow> world \<Rightarrow> Form result" where
  "Form_ctor name gradeToSign gradeToExecute w =
     (let this = \<lparr>f_name = name, f_signed = False,
                  f_gradeToSign = gradeToSign, f_gradeToExecute = gradeToExecute\<rparr>;
          w1 = cout_line ''Form parametric constructor called'' w
      in if gradeToSign < 1 \<or> gradeToExecute < 1 then (Inl GradeTooHighException, w1)
         else if gradeToSign > 150 \<or> gradeToExecute > 150 then (Inl GradeTooLowException, w1)
         else (Inr this, w1))"

definition Form_copy :: "Form \<Rightarrow> world \<Rightarrow> Form \<times> world" where
  "Form_copy other w =
     (\<lparr>f_name = f_name other, f_signed = f_signed other,
       f_gradeToSign = f_gradeToSign other, f_gradeToExecute = f_gradeToExecute other\<rparr>,
      cout_line ''Form copy constructor called'' w)"

text \<open>
  Assignment compares the addresses of its two operands, so it is embedded on a store
  of objects: \<open>this\<close> and \<open>other\<close> are addresses, \<open>h\<close> maps an address to the object there.
\<close>

definition Form_assign :: "nat \<Rightarrow> nat \<Rightarrow> (nat \<Rightarrow> Form) \<Rightarrow> world \<Rightarrow> (nat \<Rightarrow> Form) \<times> world" where
  "Form_assign this other h w =
     (let w1 = cout_line ''Form assignment operator called'' w
      in if this \<noteq> other then (h(this := (h this)\<lparr>f_signed := f_signed (h other)\<rparr>), w1)
         else (h, w1))"

definition Form_beSigned :: "Bureaucrat \<Rightarrow> Form \<Rightarrow> (exn + unit) \<times> Form" where
  "Form_beSigned bureaucrat this =
     (if getGrade bureaucrat > f_gradeToSign this then (Inl GradeTooLowException, this)
      else (Inr (), this\<lparr>f_signed := True\<rparr>))"

subsection \<open>AForm.cpp\<close>

definition AForm_default :: "world \<Rightarrow> Form \<times> world" where
  "AForm_default w =
     (\<lparr>f_name = ''Default AForm'', f_signed = False, f_gradeToSign = 150, f_gradeToExecute = 150\<rparr>,
      cout_line ''AForm default constructor called'' w)"

definition AForm_ctor :: "string \<Rightarrow> int \<Rightarrow> int \<Rightarrow> world \<Rightarrow> Form result" where
  "AForm_ctor name gradeToSign gradeToExecute w =
     (let this = \<lparr>f_name = name, f_signed = False,
                  f_gradeToSign = gradeToSign, f_gradeToExecute = gradeToExecute\<rparr>;
          w1 = cout_line ''AForm parametric constructor called'' w
      in if gradeToSign < 1 \<or> gradeToExecute < 1 then (Inl GradeTooHighException, w1)
         else if gradeToSign > 150 \<or> gradeToExecute > 150 then (Inl GradeTooLowException, w1)
         else (Inr this, w1))"

definition AForm_copy :: "'a Form_scheme \<Rightarrow> world \<Rightarrow> Form \<times> world" where
  "AForm_copy other w =
     (\<lparr>f_name = f_name other, f_signed = f_signed other,
       f_gradeToSign = f_gradeToSign other, f_gradeToExecute = f_gradeToExecute other\<rparr>,
      cout_line ''AForm copy constructor called'' w)"

definition AForm_assign ::
  "nat \<Rightarrow> nat \<Rightarrow> (nat \<Rightarrow> 'a Form_scheme) \<Rightarrow> world \<Rightarrow> (nat \<Rightarrow> 'a Form_scheme) \<times> world" where
  "AForm_assign this other h w =
     (let w1 = cout_line ''AForm assignment operator called'' w
      in if this \<noteq> other then (h(this := (h this)\<lparr>f_signed := f_signed (h other)\<rparr>), w1)
         else (h, w1))"

definition AForm_beSigned :: "Bureaucrat \<Rightarrow> 'a Form_scheme \<Rightarrow> (exn + unit) \<times> 'a Form_scheme" where
  "AForm_beSigned bureaucrat this =
     (if getGrade bureaucrat > f_gradeToSign this then (Inl GradeTooLowException, this)
      else (Inr (), this\<lparr>f_signed := True\<rparr>))"

section \<open>The concrete forms\<close>

text \<open>
  \<open>ShrubberyCreationForm\<close>, \<open>RobotomyRequestForm\<close> and \<open>PresidentialPardonForm\<close> derive from
  \<open>AForm\<close> and add one member, \<open>_target\<close>. An object seen through an \<open>AForm*\<close> carries its
  dynamic class, which selects the body of the virtual \<open>executeAction\<close>.
\<close>

datatype FormClass = ShrubberyCreationForm | RobotomyRequestForm | PresidentialPardonForm

record ConcreteForm = Form +
  f_class :: FormClass
  f_target :: string

definition derived :: "Form \<Rightarrow> FormClass \<Rightarrow> string \<Rightarrow> ConcreteForm" where
  \<comment> \<open>the object whose \<open>AForm\<close> part is \<open>base\<close>\<close>
  "derived base cls target =
     \<lparr>f_name = f_name base, f_signed = f_signed base,
      f_gradeToSign = f_gradeToSign base, f_gradeToExecute = f_gradeToExecute base,
      f_class = cls, f_target = target\<rparr>"

subsection \<open>ShrubberyCreationForm.cpp\<close>

definition ShrubberyCreationForm_default :: "world \<Rightarrow> ConcreteForm result" where
  "ShrubberyCreationForm_default w =
     (case AForm_ctor ''Shrubbery Creation Form'' 145 137 w of
        (Inl e, w1) \<Rightarrow> (Inl e, w1)
      | (Inr base, w1) \<Rightarrow>
          (Inr (derived base ShrubberyCreationForm ''default''),
           cout_line ''ShrubberyCreationForm default constructor called'' w1))"

definition ShrubberyCreationForm_ctor :: "string \<Rightarrow> world \<Rightarrow> ConcreteForm result" where
  "ShrubberyCreationForm_ctor target w =
     (case AForm_ctor ''Shrubbery Creation Form'' 145 137 w of
        (Inl e, w1) \<Rightarrow> (Inl e, w1)
      | (Inr base, w1) \<Rightarrow>
          (Inr (derived base ShrubberyCreationForm target),
           cout_line ''ShrubberyCreationForm parametric constructor called'' w1))"

definition ShrubberyCreationForm_copy :: "ConcreteForm \<Rightarrow> world \<Rightarrow> ConcreteForm \<times> world" where
  "ShrubberyCreationForm_copy other w =
     (case AForm_copy other w of
        (base, w1) \<Rightarrow>
          (derived base ShrubberyCreationForm (f_target other),
           cout_line ''ShrubberyCreationForm copy constructor called'' w1))"

definition ShrubberyCreationForm_assign ::
  "nat \<Rightarrow> nat \<Rightarrow> (nat \<Rightarrow> ConcreteForm) \<Rightarrow> world \<Rightarrow> (nat \<Rightarrow> ConcreteForm) \<times> world" where
  "ShrubberyCreationForm_assign this other h w =
     (let w1 = cout_line ''ShrubberyCreationForm assignment operator called'' w
      in if this \<noteq> other then
           (case AForm_assign this other h w1 of
              (h1, w2) \<Rightarrow> (h1(this := (h1 this)\<lparr>f_target := f_target (h1 other)\<rparr>), w2))
         else (h, w1))"

definition tree_a :: string where
  "tree_a = [CHR 0xC3, CHR 0xB0, CHR 0xC5, CHR 0xB8, CHR 0xC5, CHR 0x92, CHR 0xC2, CHR 0xB2]"

definition tree_b :: string where
  "tree_b = [CHR 0xC3, CHR 0xB0, CHR 0xC5, CHR 0xB8, CHR 0xC5, CHR 0x92, CHR 0xC2, CHR 0xB3]"

definition shrubbery_lines :: "string list" where
  \<comment> \<open>the 24 lines the source streams into the file, one per statement; \<open>CHR 0x5C\<close> is
      the backslash, \<open>tree_a\<close> and \<open>tree_b\<close> are the bytes of the two tree signs as the source
      file holds them\<close>
  "shrubbery_lines =
     [''       ^'',
      ''      ^^^'',
      ''     ^^^^^'',
      ''    ^^^^^^^'',
      ''   ^^^^^^^^^'',
      ''  ^^^^^^^^^^^'',
      '' ^^^^^^^^^^^^^'',
      ''^^^^^^^^^^^^^^^'',
      ''       |||'',
      ''       |||'',
      [],
      ''      /'' @ [CHR 0x5C],
      ''     /  '' @ [CHR 0x5C],
      ''    /____'' @ [CHR 0x5C],
      ''   /      '' @ [CHR 0x5C],
      ''  /        '' @ [CHR 0x5C],
      '' /__________'' @ [CHR 0x5C],
      ''      ||'',
      ''      ||'',
      [],
      ''    '' @ tree_a @ tree_b @ tree_a,
      ''   '' @ tree_b @ tree_a @ tree_b @ tree_a,
      ''  '' @ tree_a @ tree_b @ tree_a @ tree_b @ tree_a,
      ''     |||'']"

definition ShrubberyCreationForm_executeAction :: "ConcreteForm \<Rightarrow> world \<Rightarrow> unit result" where
  \<comment> \<open>the stream is never tested after the open; \<open>file.close()\<close> has nothing left to
      flush, every line having been flushed by its \<open>std::endl\<close>\<close>
  "ShrubberyCreationForm_executeAction this w =
     (let filename = f_target this @ ''_shrubbery'';
          (file, w1) = ofstream_ctor (c_str filename) w
      in if \<not> os_open file then
           (Inr (), cout_line (''Error: Could not create file '' @ filename) w1)
         else
           (let (file2, w2) = foldl ofstream_line (file, w1) shrubbery_lines
            in (Inr (), cout_line (''Shrubbery has been planted at '' @ f_target this) w2)))"

subsection \<open>RobotomyRequestForm.cpp\<close>

definition RobotomyRequestForm_default :: "world \<Rightarrow> ConcreteForm result" where
  "RobotomyRequestForm_default w =
     (case AForm_ctor ''Robotomy Request Form'' 72 45 w of
        (Inl e, w1) \<Rightarrow> (Inl e, w1)
      | (Inr base, w1) \<Rightarrow>
          (Inr (derived base RobotomyRequestForm ''default''),
           cout_line ''RobotomyRequestForm default constructor called'' w1))"

definition RobotomyRequestForm_ctor :: "string \<Rightarrow> world \<Rightarrow> ConcreteForm result" where
  "RobotomyRequestForm_ctor target w =
     (case AForm_ctor ''Robotomy Request Form'' 72 45 w of
        (Inl e, w1) \<Rightarrow> (Inl e, w1)
      | (Inr base, w1) \<Rightarrow>
          (Inr (derived base RobotomyRequestForm target),
           cout_line ''RobotomyRequestForm parametric constructor called'' w1))"

definition RobotomyRequestForm_copy :: "ConcreteForm \<Rightarrow> world \<Rightarrow> ConcreteForm \<times> world" where
  "RobotomyRequestForm_copy other w =
     (case AForm_copy other w of
        (base, w1) \<Rightarrow>
          (derived base RobotomyRequestForm (f_target other),
           cout_line ''RobotomyRequestForm copy constructor called'' w1))"

definition RobotomyRequestForm_assign ::
  "nat \<Rightarrow> nat \<Rightarrow> (nat \<Rightarrow> ConcreteForm) \<Rightarrow> world \<Rightarrow> (nat \<Rightarrow> ConcreteForm) \<times> world" where
  "RobotomyRequestForm_assign this other h w =
     (let w1 = cout_line ''RobotomyRequestForm assignment operator called'' w
      in if this \<noteq> other then
           (case AForm_assign this other h w1 of
              (h1, w2) \<Rightarrow> (h1(this := (h1 this)\<lparr>f_target := f_target (h1 other)\<rparr>), w2))
         else (h, w1))"

definition RobotomyRequestForm_executeAction :: "ConcreteForm \<Rightarrow> world \<Rightarrow> unit result" where
  \<comment> \<open>the seed is \<open>static_cast<unsigned int>(time(NULL))\<close>\<close>
  "RobotomyRequestForm_executeAction this w =
     (let w1 = cout_line ''* DRILLING NOISES * BZZZZZZT * WHIRRRRR * CLANK *'' w;
          w2 = srand (nat (time_now w1 mod 2 ^ 32)) w1;
          (r, w3) = rand w2
      in if r mod 2 = 0 then
           (Inr (), cout_line (f_target this @ '' has been robotomized successfully!'') w3)
         else
           (Inr (), cout_line (''Robotomy of '' @ f_target this @ '' has failed!'') w3))"

subsection \<open>PresidentialPardonForm.cpp\<close>

definition PresidentialPardonForm_default :: "world \<Rightarrow> ConcreteForm result" where
  "PresidentialPardonForm_default w =
     (case AForm_ctor ''Presidential Pardon Form'' 25 5 w of
        (Inl e, w1) \<Rightarrow> (Inl e, w1)
      | (Inr base, w1) \<Rightarrow>
          (Inr (derived base PresidentialPardonForm ''default''),
           cout_line ''PresidentialPardonForm default constructor called'' w1))"

definition PresidentialPardonForm_ctor :: "string \<Rightarrow> world \<Rightarrow> ConcreteForm result" where
  "PresidentialPardonForm_ctor target w =
     (case AForm_ctor ''Presidential Pardon Form'' 25 5 w of
        (Inl e, w1) \<Rightarrow> (Inl e, w1)
      | (Inr base, w1) \<Rightarrow>
          (Inr (derived base PresidentialPardonForm target),
           cout_line ''PresidentialPardonForm parametric constructor called'' w1))"

definition PresidentialPardonForm_copy :: "ConcreteForm \<Rightarrow> world \<Rightarrow> ConcreteForm \<times> world" where
  "PresidentialPardonForm_copy other w =
     (case AForm_copy other w of
        (base, w1) \<Rightarrow>
          (derived base PresidentialPardonForm (f_target other),
           cout_line ''PresidentialPardonForm copy constructor called'' w1))"

definition PresidentialPardonForm_assign ::
  "nat \<Rightarrow> nat \<Rightarrow> (nat \<Rightarrow> ConcreteForm) \<Rightarrow> world \<Rightarrow> (nat \<Rightarrow> ConcreteForm) \<times> world" where
  "PresidentialPardonForm_assign this other h w =
     (let w1 = cout_line ''PresidentialPardonForm assignment operator called'' w
      in if this \<noteq> other then
           (case AForm_assign this other h w1 of
              (h1, w2) \<Rightarrow> (h1(this := (h1 this)\<lparr>f_target := f_target (h1 other)\<rparr>), w2))
         else (h, w1))"

definition PresidentialPardonForm_executeAction :: "ConcreteForm \<Rightarrow> world \<Rightarrow> unit result" where
  "PresidentialPardonForm_executeAction this w =
     (Inr (), cout_line (f_target this @ '' has been pardoned by Zaphod Beeblebrox.'') w)"

subsection \<open>AForm::execute\<close>

definition executeAction :: "ConcreteForm \<Rightarrow> world \<Rightarrow> unit result" where
  \<comment> \<open>the virtual call, resolved on the dynamic class\<close>
  "executeAction this w =
     (case f_class this of
        ShrubberyCreationForm \<Rightarrow> ShrubberyCreationForm_executeAction this w
      | RobotomyRequestForm \<Rightarrow> RobotomyRequestForm_executeAction this w
      | PresidentialPardonForm \<Rightarrow> PresidentialPardonForm_executeAction this w)"

definition AForm_execute :: "Bureaucrat \<Rightarrow> ConcreteForm \<Rightarrow> world \<Rightarrow> unit result" where
  \<comment> \<open>a \<open>const\<close> method: the form itself cannot change\<close>
  "AForm_execute executor this w =
     (if \<not> f_signed this then (Inl FormNotSignedException, w)
      else if getGrade executor > f_gradeToExecute this then (Inl GradeTooLowException, w)
      else executeAction this w)"

section \<open>Intern\<close>

definition createShrubberyCreationForm :: "string \<Rightarrow> world \<Rightarrow> ConcreteForm result" where
  "createShrubberyCreationForm target w = ShrubberyCreationForm_ctor target w"

definition createRobotomyRequestForm :: "string \<Rightarrow> world \<Rightarrow> ConcreteForm result" where
  "createRobotomyRequestForm target w = RobotomyRequestForm_ctor target w"

definition createPresidentialPardonForm :: "string \<Rightarrow> world \<Rightarrow> ConcreteForm result" where
  "createPresidentialPardonForm target w = PresidentialPardonForm_ctor target w"

definition formNames :: "string list" where
  "formNames = [''shrubbery creation'', ''robotomy request'', ''presidential pardon'']"

definition formCreators :: "(string \<Rightarrow> world \<Rightarrow> ConcreteForm result) list" where
  "formCreators =
     [createShrubberyCreationForm, createRobotomyRequestForm, createPresidentialPardonForm]"

function makeForm_loop :: "nat \<Rightarrow> string \<Rightarrow> string \<Rightarrow> world \<Rightarrow> ConcreteForm result" where
  "makeForm_loop i formName target w =
     (if i < 3 then
        (if formName = formNames ! i then
           (formCreators ! i) target (cout_line (''Intern creates '' @ formName) w)
         else makeForm_loop (i + 1) formName target w)
      else
        (Inl FormNotFoundException,
         cout_line (''Error: Form '' @ [CHR 0x22] @ formName @ [CHR 0x22] @ '' does not exist'') w))"
  by pat_completeness auto
termination
  by (relation "measure (\<lambda>(i, formName, target, w). 3 - i)") auto

definition makeForm :: "string \<Rightarrow> string \<Rightarrow> world \<Rightarrow> ConcreteForm result" where
  "makeForm formName target w = makeForm_loop 0 formName target w"

section \<open>Runs of the public interface\<close>

text \<open>
  A client holds forms at addresses of a store and calls, in any order, \<open>beSigned\<close> and
  \<open>execute\<close> on a form and \<open>AForm::operator=\<close> between two forms. \<open>beSigned\<close> leaves its
  object as the call left it, whether it returned or threw; \<open>execute\<close> acts on the world
  only.
\<close>

datatype form_op = BeSigned nat Bureaucrat | Execute nat Bureaucrat | Assign nat nat

fun form_step :: "(nat \<Rightarrow> ConcreteForm) \<times> world \<Rightarrow> form_op \<Rightarrow> (nat \<Rightarrow> ConcreteForm) \<times> world" where
  "form_step (h, w) (BeSigned p b) = (h(p := snd (AForm_beSigned b (h p))), w)"
| "form_step (h, w) (Execute p b) = (h, snd (AForm_execute b (h p) w))"
| "form_step (h, w) (Assign p q) = AForm_assign p q h w"

fun is_Assign :: "form_op \<Rightarrow> bool" where
  "is_Assign (Assign p q) = True"
| "is_Assign _ = False"

text \<open>
  A world to run examples in: nothing printed, no file, every path can be opened and
  every write is taken whole.
\<close>

definition empty_world :: world where
  "empty_world =
     \<lparr>cout = [], files = Map.empty, opens = [], can_open = (\<lambda>path. True),
      fs_write = (\<lambda>path old data. length data), time_now = 0,
      rand_gen = (\<lambda>s k. s + k), rand_seed = 0, rand_drawn = 0\<rparr>"


section \<open>Signing\<close>

text \<open>
  C1. \<open>beSigned\<close> (the spec's \<open>document.sign(actor)\<close>), in \<open>Form\<close> and in \<open>AForm\<close> alike:
  it returns normally exactly when the bureaucrat's grade is at most the grade to sign, and
  then the form is signed and otherwise as before; it throws \<open>GradeTooLowException\<close> exactly
  when the grade is greater, and then the form is untouched. The test runs on every call:
  signing a second time with the same eligible bureaucrat returns normally and changes
  nothing, and an ineligible bureaucrat gets \<open>GradeTooLowException\<close> from a form that is
  already signed, which stays signed.
\<close>

theorem C1_beSigned:
  fixes b :: Bureaucrat and f :: Form and g :: "'a Form_scheme"
  shows
   "((fst (Form_beSigned b f) = Inr ()) = (getGrade b \<le> f_gradeToSign f)) \<and>
    ((fst (Form_beSigned b f) = Inl GradeTooLowException) = (getGrade b > f_gradeToSign f)) \<and>
    (getGrade b \<le> f_gradeToSign f \<longrightarrow> snd (Form_beSigned b f) = f\<lparr>f_signed := True\<rparr>) \<and>
    (getGrade b > f_gradeToSign f \<longrightarrow> snd (Form_beSigned b f) = f) \<and>
    (getGrade b \<le> f_gradeToSign f \<longrightarrow>
       Form_beSigned b (snd (Form_beSigned b f)) = (Inr (), snd (Form_beSigned b f))) \<and>
    (f_signed f \<and> getGrade b > f_gradeToSign f \<longrightarrow>
       Form_beSigned b f = (Inl GradeTooLowException, f) \<and> f_signed (snd (Form_beSigned b f))) \<and>
    ((fst (AForm_beSigned b g) = Inr ()) = (getGrade b \<le> f_gradeToSign g)) \<and>
    ((fst (AForm_beSigned b g) = Inl GradeTooLowException) = (getGrade b > f_gradeToSign g)) \<and>
    (getGrade b \<le> f_gradeToSign g \<longrightarrow> snd (AForm_beSigned b g) = g\<lparr>f_signed := True\<rparr>) \<and>
    (getGrade b > f_gradeToSign g \<longrightarrow> snd (AForm_beSigned b g) = g) \<and>
    (getGrade b \<le> f_gradeToSign g \<longrightarrow>
       AForm_beSigned b (snd (AForm_beSigned b g)) = (Inr (), snd (AForm_beSigned b g))) \<and>
    (f_signed g \<and> getGrade b > f_gradeToSign g \<longrightarrow>
       AForm_beSigned b g = (Inl GradeTooLowException, g) \<and> f_signed (snd (AForm_beSigned b g)))"
  by (simp add: Form_beSigned_def AForm_beSigned_def)

text \<open>
  Test 6 of ex01/main.cpp: Charlie (grade 1) signs the restricted form (grade to sign 10)
  twice; Dave (grade 150) is refused on the signed form.
\<close>

theorem C1_beSigned_witness:
  "Form_beSigned \<lparr>b_name = ''Charlie'', b_grade = 1\<rparr>
     \<lparr>f_name = ''Restricted Form'', f_signed = False, f_gradeToSign = 10, f_gradeToExecute = 5\<rparr>
   = (Inr (), \<lparr>f_name = ''Restricted Form'', f_signed = True, f_gradeToSign = 10, f_gradeToExecute = 5\<rparr>) \<and>
   Form_beSigned \<lparr>b_name = ''Charlie'', b_grade = 1\<rparr>
     \<lparr>f_name = ''Restricted Form'', f_signed = True, f_gradeToSign = 10, f_gradeToExecute = 5\<rparr>
   = (Inr (), \<lparr>f_name = ''Restricted Form'', f_signed = True, f_gradeToSign = 10, f_gradeToExecute = 5\<rparr>) \<and>
   AForm_beSigned \<lparr>b_name = ''Dave'', b_grade = 150\<rparr>
     \<lparr>f_name = ''Restricted Form'', f_signed = True, f_gradeToSign = 10, f_gradeToExecute = 5\<rparr>
   = (Inl GradeTooLowException,
      \<lparr>f_name = ''Restricted Form'', f_signed = True, f_gradeToSign = 10, f_gradeToExecute = 5\<rparr>)"
  using C1_beSigned [of "\<lparr>b_name = ''Charlie'', b_grade = 1\<rparr>"
      "\<lparr>f_name = ''Restricted Form'', f_signed = False, f_gradeToSign = 10, f_gradeToExecute = 5\<rparr>"
      "\<lparr>f_name = ''Restricted Form'', f_signed = True, f_gradeToSign = 10, f_gradeToExecute = 5\<rparr>"]
    C1_beSigned [of "\<lparr>b_name = ''Dave'', b_grade = 150\<rparr>"
      "\<lparr>f_name = ''Restricted Form'', f_signed = True, f_gradeToSign = 10, f_gradeToExecute = 5\<rparr>"
      "\<lparr>f_name = ''Restricted Form'', f_signed = True, f_gradeToSign = 10, f_gradeToExecute = 5\<rparr>"]
  by (simp add: getGrade_def Form_beSigned_def AForm_beSigned_def)


section \<open>Executing\<close>

lemma foldl_ofstream_line_failed:
  "os_fail strm \<Longrightarrow> foldl ofstream_line (strm, w) ls = (strm, w)"
  by (induction ls) (simp_all add: ofstream_line_def)

lemma foldl_ofstream_line:
  "files w (os_path strm) = Some c \<Longrightarrow>
   \<exists>n strm'. foldl ofstream_line (strm, w) ls =
     (strm', w\<lparr>files := (files w)(os_path strm \<mapsto> c @ take n (text_of ls))\<rparr>)"
proof (induction ls arbitrary: strm w c)
  case Nil
  have "w\<lparr>files := (files w)(os_path strm \<mapsto> c @ take 0 (text_of []))\<rparr> = w"
    using Nil by (simp add: fun_upd_idem)
  then have "foldl ofstream_line (strm, w) [] =
      (strm, w\<lparr>files := (files w)(os_path strm \<mapsto> c @ take 0 (text_of []))\<rparr>)"
    by (simp only: foldl_Nil)
  then show ?case by blast
next
  case (Cons l ls)
  let ?data = "l @ [CHR 0x0A]"
  let ?n = "min (fs_write w (os_path strm) c ?data) (length ?data)"
  let ?file1 = "strm\<lparr>os_fail := ?n < length ?data\<rparr>"
  let ?w1 = "w\<lparr>files := (files w)(os_path strm \<mapsto> c @ take ?n ?data)\<rparr>"
  have unroll: "text_of (l # ls) = ?data @ text_of ls"
    by (simp add: text_of_def)
  show ?case
  proof (cases "os_fail strm")
    case True
    have idle: "foldl ofstream_line (strm, w) (l # ls) = (strm, w)"
      using True by (rule foldl_ofstream_line_failed)
    have same: "w\<lparr>files := (files w)(os_path strm \<mapsto> c @ take 0 (text_of (l # ls)))\<rparr> = w"
      using Cons.prems by (simp add: fun_upd_idem)
    have "foldl ofstream_line (strm, w) (l # ls) =
        (strm, w\<lparr>files := (files w)(os_path strm \<mapsto> c @ take 0 (text_of (l # ls)))\<rparr>)"
      by (simp only: idle same)
    then show ?thesis by blast
  next
    case False
    have step: "ofstream_line (strm, w) l = (?file1, ?w1)"
      using False Cons.prems by (simp add: ofstream_line_def Let_def)
    show ?thesis
    proof (cases "?n < length ?data")
      case True
      then have "foldl ofstream_line (?file1, ?w1) ls = (?file1, ?w1)"
        by (intro foldl_ofstream_line_failed) simp
      moreover have "take ?n (text_of (l # ls)) = take ?n ?data"
        using True by (simp add: unroll)
      ultimately have "foldl ofstream_line (strm, w) (l # ls) =
          (?file1, w\<lparr>files := (files w)(os_path strm \<mapsto> c @ take ?n (text_of (l # ls)))\<rparr>)"
        by (simp add: step)
      then show ?thesis by blast
    next
      case False
      then have whole: "take ?n ?data = ?data"
        by (simp only: take_all_iff not_less)
      have "files ?w1 (os_path ?file1) = Some (c @ take ?n ?data)"
        by simp
      then have "files ?w1 (os_path ?file1) = Some (c @ ?data)"
        by (simp only: whole)
      from Cons.IH [OF this] obtain m strm' where
        rest: "foldl ofstream_line (?file1, ?w1) ls =
          (strm', ?w1\<lparr>files := (files ?w1)(os_path ?file1 \<mapsto> (c @ ?data) @ take m (text_of ls))\<rparr>)"
        by blast
      have "take (length ?data + m) (text_of (l # ls)) = ?data @ take m (text_of ls)"
        by (simp add: unroll)
      then have "foldl ofstream_line (strm, w) (l # ls) =
          (strm', w\<lparr>files := (files w)(os_path strm \<mapsto>
             c @ take (length ?data + m) (text_of (l # ls)))\<rparr>)"
        using rest by (simp add: step)
      then show ?thesis by blast
    qed
  qed
qed


lemma Shrubbery_not_opened:
  assumes "\<not> can_open w (c_str (f_target this @ ''_shrubbery''))"
  shows "ShrubberyCreationForm_executeAction this w =
           (Inr (), w\<lparr>opens := opens w @ [c_str (f_target this @ ''_shrubbery'')],
                      cout := cout w @
                        [''Error: Could not create file '' @ f_target this @ ''_shrubbery'']\<rparr>)"
  using assms
  by (simp add: ShrubberyCreationForm_executeAction_def ofstream_ctor_def cout_line_def Let_def)

lemma Shrubbery_opened:
  assumes "can_open w (c_str (f_target this @ ''_shrubbery''))"
  shows "\<exists>n. ShrubberyCreationForm_executeAction this w =
           (Inr (), w\<lparr>opens := opens w @ [c_str (f_target this @ ''_shrubbery'')],
                      files := (files w)(c_str (f_target this @ ''_shrubbery'') \<mapsto>
                                  take n (text_of shrubbery_lines)),
                      cout := cout w @ [''Shrubbery has been planted at '' @ f_target this]\<rparr>)"
proof -
  let ?path = "c_str (f_target this @ ''_shrubbery'')"
  let ?file = "\<lparr>os_path = ?path, os_open = True, os_fail = False\<rparr>"
  let ?w1 = "w\<lparr>opens := opens w @ [?path], files := (files w)(?path \<mapsto> [])\<rparr>"
  have "files ?w1 (os_path ?file) = Some []"
    by simp
  from foldl_ofstream_line [OF this, of shrubbery_lines] obtain n file' where
    "foldl ofstream_line (?file, ?w1) shrubbery_lines =
       (file', ?w1\<lparr>files := (files ?w1)(?path \<mapsto> take n (text_of shrubbery_lines))\<rparr>)"
    by auto
  then have "ShrubberyCreationForm_executeAction this w =
      (Inr (), w\<lparr>opens := opens w @ [?path],
                 files := (files w)(?path \<mapsto> take n (text_of shrubbery_lines)),
                 cout := cout w @ [''Shrubbery has been planted at '' @ f_target this]\<rparr>)"
    using assms
    by (simp add: ShrubberyCreationForm_executeAction_def ofstream_ctor_def cout_line_def Let_def)
  then show ?thesis by blast
qed



lemma Robotomy_result:
  "RobotomyRequestForm_executeAction this w =
     (Inr (),
      w\<lparr>cout := cout w @
           [''* DRILLING NOISES * BZZZZZZT * WHIRRRRR * CLANK *'',
            if rand_gen w (nat (time_now w mod 2 ^ 32)) 0 mod 2 = 0
            then f_target this @ '' has been robotomized successfully!''
            else ''Robotomy of '' @ f_target this @ '' has failed!''],
        rand_seed := nat (time_now w mod 2 ^ 32),
        rand_drawn := 1\<rparr>)"
  by (simp add: RobotomyRequestForm_executeAction_def cout_line_def srand_def rand_def)

lemma executeAction_returns: "fst (executeAction this w) = Inr ()"
proof (cases "f_class this")
  case ShrubberyCreationForm
  show ?thesis
  proof (cases "can_open w (c_str (f_target this @ ''_shrubbery''))")
    case True
    from Shrubbery_opened [OF this] obtain n where
      "ShrubberyCreationForm_executeAction this w =
         (Inr (), w\<lparr>opens := opens w @ [c_str (f_target this @ ''_shrubbery'')],
                    files := (files w)(c_str (f_target this @ ''_shrubbery'') \<mapsto>
                                take n (text_of shrubbery_lines)),
                    cout := cout w @ [''Shrubbery has been planted at '' @ f_target this]\<rparr>)"
      by blast
    then show ?thesis
      using ShrubberyCreationForm by (simp add: executeAction_def)
  next
    case False
    then show ?thesis
      using ShrubberyCreationForm by (simp add: executeAction_def Shrubbery_not_opened)
  qed
next
  case RobotomyRequestForm
  then show ?thesis by (simp add: executeAction_def Robotomy_result)
next
  case PresidentialPardonForm
  then show ?thesis by (simp add: executeAction_def PresidentialPardonForm_executeAction_def)
qed

text \<open>
  C2. \<open>AForm::execute\<close> (the spec's \<open>document.execute(actor)\<close>): on an unsigned form it
  throws \<open>FormNotSignedException\<close> whatever the executor's grade, before any grade is
  compared and with nothing done to the world; on a signed form it throws
  \<open>GradeTooLowException\<close> exactly when the executor's grade is greater than the grade to
  execute, again with nothing done; otherwise it is the call of \<open>executeAction\<close>, which is
  the body of the form's own class, and its outcome is the outcome of \<open>execute\<close>.
\<close>

theorem C2_execute:
  "(\<not> f_signed this \<longrightarrow> AForm_execute executor this w = (Inl FormNotSignedException, w)) \<and>
   (f_signed this \<longrightarrow>
      (fst (AForm_execute executor this w) = Inl GradeTooLowException) =
      (getGrade executor > f_gradeToExecute this)) \<and>
   (f_signed this \<and> getGrade executor > f_gradeToExecute this \<longrightarrow>
      AForm_execute executor this w = (Inl GradeTooLowException, w)) \<and>
   (f_signed this \<and> getGrade executor \<le> f_gradeToExecute this \<longrightarrow>
      AForm_execute executor this w = executeAction this w) \<and>
   (f_class this = ShrubberyCreationForm \<longrightarrow>
      executeAction this w = ShrubberyCreationForm_executeAction this w) \<and>
   (f_class this = RobotomyRequestForm \<longrightarrow>
      executeAction this w = RobotomyRequestForm_executeAction this w) \<and>
   (f_class this = PresidentialPardonForm \<longrightarrow>
      executeAction this w = PresidentialPardonForm_executeAction this w)"
proof -
  have "fst (executeAction this w) \<noteq> Inl GradeTooLowException"
    by (simp add: executeAction_returns)
  then show ?thesis
    by (simp add: AForm_execute_def executeAction_def)
qed

text \<open>
  Tests 3 and 4 of ex02/main.cpp, and test 6: Bob (grade 1) cannot execute the unsigned
  robotomy request; Charlie (grade 50) cannot execute the signed one (grade to execute 45);
  the president (grade 1) executes the signed pardon of Ford Prefect.
\<close>

theorem C2_execute_witness:
  "AForm_execute \<lparr>b_name = ''Bob'', b_grade = 1\<rparr>
     \<lparr>f_name = ''Robotomy Request Form'', f_signed = False, f_gradeToSign = 72,
      f_gradeToExecute = 45, f_class = RobotomyRequestForm, f_target = ''Wall-E''\<rparr> empty_world
     = (Inl FormNotSignedException, empty_world) \<and>
   AForm_execute \<lparr>b_name = ''Charlie'', b_grade = 50\<rparr>
     \<lparr>f_name = ''Robotomy Request Form'', f_signed = True, f_gradeToSign = 72,
      f_gradeToExecute = 45, f_class = RobotomyRequestForm, f_target = ''C-3PO''\<rparr> empty_world
     = (Inl GradeTooLowException, empty_world) \<and>
   AForm_execute \<lparr>b_name = ''Mr. President'', b_grade = 1\<rparr>
     \<lparr>f_name = ''Presidential Pardon Form'', f_signed = True, f_gradeToSign = 25,
      f_gradeToExecute = 5, f_class = PresidentialPardonForm, f_target = ''Ford Prefect''\<rparr> empty_world
     = (Inr (), empty_world\<lparr>cout := [''Ford Prefect has been pardoned by Zaphod Beeblebrox.'']\<rparr>)"
  using
    C2_execute [of "\<lparr>f_name = ''Robotomy Request Form'', f_signed = False, f_gradeToSign = 72,
      f_gradeToExecute = 45, f_class = RobotomyRequestForm, f_target = ''Wall-E''\<rparr>"
      "\<lparr>b_name = ''Bob'', b_grade = 1\<rparr>" empty_world]
    C2_execute [of "\<lparr>f_name = ''Robotomy Request Form'', f_signed = True, f_gradeToSign = 72,
      f_gradeToExecute = 45, f_class = RobotomyRequestForm, f_target = ''C-3PO''\<rparr>"
      "\<lparr>b_name = ''Charlie'', b_grade = 50\<rparr>" empty_world]
    C2_execute [of "\<lparr>f_name = ''Presidential Pardon Form'', f_signed = True, f_gradeToSign = 25,
      f_gradeToExecute = 5, f_class = PresidentialPardonForm, f_target = ''Ford Prefect''\<rparr>"
      "\<lparr>b_name = ''Mr. President'', b_grade = 1\<rparr>" empty_world]
  by (simp add: getGrade_def PresidentialPardonForm_executeAction_def cout_line_def empty_world_def)


section \<open>The actions\<close>





text \<open>
  C9. \<open>RobotomyRequestForm::executeAction\<close> always returns normally. It seeds the
  generator from the clock and calls \<open>rand()\<close> once: afterwards exactly one value has been
  drawn since the seeding. It prints the drilling line and then one line more: the success
  line for the target when the value drawn is even, the failure line when it is odd.
  The failure line is output like the other; no exception stands for it. No file changes.
\<close>

theorem C9_robotomy:
  "fst (RobotomyRequestForm_executeAction this w) = Inr () \<and>
   rand_seed (snd (RobotomyRequestForm_executeAction this w)) = nat (time_now w mod 2 ^ 32) \<and>
   rand_drawn (snd (RobotomyRequestForm_executeAction this w)) = 1 \<and>
   files (snd (RobotomyRequestForm_executeAction this w)) = files w \<and>
   (fst (rand (srand (nat (time_now w mod 2 ^ 32)) w)) mod 2 = 0 \<longrightarrow>
      cout (snd (RobotomyRequestForm_executeAction this w)) =
        cout w @ [''* DRILLING NOISES * BZZZZZZT * WHIRRRRR * CLANK *'',
                  f_target this @ '' has been robotomized successfully!'']) \<and>
   (fst (rand (srand (nat (time_now w mod 2 ^ 32)) w)) mod 2 \<noteq> 0 \<longrightarrow>
      cout (snd (RobotomyRequestForm_executeAction this w)) =
        cout w @ [''* DRILLING NOISES * BZZZZZZT * WHIRRRRR * CLANK *'',
                  ''Robotomy of '' @ f_target this @ '' has failed!''])"
  by (simp add: Robotomy_result rand_def srand_def)

text \<open>
  The robotomy of Bender, once with a clock that makes the first value drawn even (the
  example generator returns seed plus index) and once with one that makes it odd.
\<close>

theorem C9_robotomy_witness:
  "RobotomyRequestForm_executeAction
     \<lparr>f_name = ''Robotomy Request Form'', f_signed = True, f_gradeToSign = 72,
      f_gradeToExecute = 45, f_class = RobotomyRequestForm, f_target = ''Bender''\<rparr>
     (empty_world\<lparr>time_now := 4\<rparr>)
   = (Inr (), empty_world\<lparr>time_now := 4, rand_seed := 4, rand_drawn := 1,
        cout := [''* DRILLING NOISES * BZZZZZZT * WHIRRRRR * CLANK *'',
                 ''Bender has been robotomized successfully!'']\<rparr>) \<and>
   RobotomyRequestForm_executeAction
     \<lparr>f_name = ''Robotomy Request Form'', f_signed = True, f_gradeToSign = 72,
      f_gradeToExecute = 45, f_class = RobotomyRequestForm, f_target = ''Bender''\<rparr>
     (empty_world\<lparr>time_now := 7\<rparr>)
   = (Inr (), empty_world\<lparr>time_now := 7, rand_seed := 7, rand_drawn := 1,
        cout := [''* DRILLING NOISES * BZZZZZZT * WHIRRRRR * CLANK *'',
                 ''Robotomy of Bender has failed!'']\<rparr>)"
  using
    C9_robotomy [of
     "\<lparr>f_name = ''Robotomy Request Form'', f_signed = True, f_gradeToSign = 72,
      f_gradeToExecute = 45, f_class = RobotomyRequestForm, f_target = ''Bender''\<rparr>"
     "empty_world\<lparr>time_now := 4\<rparr>"]
    C9_robotomy [of
     "\<lparr>f_name = ''Robotomy Request Form'', f_signed = True, f_gradeToSign = 72,
      f_gradeToExecute = 45, f_class = RobotomyRequestForm, f_target = ''Bender''\<rparr>"
     "empty_world\<lparr>time_now := 7\<rparr>"]
  by (simp add: Robotomy_result empty_world_def)


section \<open>Construction and the constant members\<close>

lemma AForm_ctor_ok:
  "1 \<le> s \<Longrightarrow> s \<le> 150 \<Longrightarrow> 1 \<le> e \<Longrightarrow> e \<le> 150 \<Longrightarrow>
   AForm_ctor name s e w =
     (Inr \<lparr>f_name = name, f_signed = False, f_gradeToSign = s, f_gradeToExecute = e\<rparr>,
      cout_line ''AForm parametric constructor called'' w)"
  by (simp add: AForm_ctor_def)

lemma form_step_const:
  "f_name (fst (form_step (h, w) x) p) = f_name (h p) \<and>
   f_gradeToSign (fst (form_step (h, w) x) p) = f_gradeToSign (h p) \<and>
   f_gradeToExecute (fst (form_step (h, w) x) p) = f_gradeToExecute (h p) \<and>
   f_class (fst (form_step (h, w) x) p) = f_class (h p) \<and>
   f_target (fst (form_step (h, w) x) p) = f_target (h p)"
  by (cases x) (simp_all add: AForm_beSigned_def AForm_assign_def Let_def)

lemma form_run_const:
  "f_name (fst (foldl form_step (h, w) xs) p) = f_name (h p) \<and>
   f_gradeToSign (fst (foldl form_step (h, w) xs) p) = f_gradeToSign (h p) \<and>
   f_gradeToExecute (fst (foldl form_step (h, w) xs) p) = f_gradeToExecute (h p) \<and>
   f_class (fst (foldl form_step (h, w) xs) p) = f_class (h p) \<and>
   f_target (fst (foldl form_step (h, w) xs) p) = f_target (h p)"
proof (induction xs arbitrary: h w)
  case Nil
  show ?case by simp
next
  case (Cons x xs)
  obtain h1 w1 where s: "form_step (h, w) x = (h1, w1)"
    by (cases "form_step (h, w) x")
  have "h1 = fst (form_step (h, w) x)"
    by (simp add: s)
  then show ?case
    using Cons.IH [of h1 w1] form_step_const [of h w x p] by (simp add: s)
qed

text \<open>
  C5. The parametric constructor of \<open>Form\<close> and of \<open>AForm\<close> returns an object exactly when
  both grades lie between 1 and 150, and the object then has the name and the two grades
  it was given. It throws \<open>GradeTooHighException\<close> whenever one of the grades is below 1
  (this test is the first, so it wins over a grade above 150), and
  \<open>GradeTooLowException\<close> when none is below 1 and one is above 150. After construction the
  name and the two grades stay: \<open>beSigned\<close> keeps them whether it returns or throws,
  assignment keeps them in every object of the store, and so does every run of
  \<open>beSigned\<close>, \<open>execute\<close> and assignment.
\<close>

theorem C5_thresholds:
  "((\<exists>f. fst (Form_ctor name s e w) = Inr f) = (1 \<le> s \<and> s \<le> 150 \<and> 1 \<le> e \<and> e \<le> 150)) \<and>
   ((\<exists>f. fst (AForm_ctor name s e w) = Inr f) = (1 \<le> s \<and> s \<le> 150 \<and> 1 \<le> e \<and> e \<le> 150)) \<and>
   (1 \<le> s \<and> s \<le> 150 \<and> 1 \<le> e \<and> e \<le> 150 \<longrightarrow>
      fst (Form_ctor name s e w) =
        Inr \<lparr>f_name = name, f_signed = False, f_gradeToSign = s, f_gradeToExecute = e\<rparr> \<and>
      fst (AForm_ctor name s e w) =
        Inr \<lparr>f_name = name, f_signed = False, f_gradeToSign = s, f_gradeToExecute = e\<rparr>) \<and>
   (s < 1 \<or> e < 1 \<longrightarrow>
      fst (Form_ctor name s e w) = Inl GradeTooHighException \<and>
      fst (AForm_ctor name s e w) = Inl GradeTooHighException) \<and>
   (1 \<le> s \<and> 1 \<le> e \<and> (150 < s \<or> 150 < e) \<longrightarrow>
      fst (Form_ctor name s e w) = Inl GradeTooLowException \<and>
      fst (AForm_ctor name s e w) = Inl GradeTooLowException) \<and>
   f_name (snd (Form_beSigned b f)) = f_name f \<and>
   f_gradeToSign (snd (Form_beSigned b f)) = f_gradeToSign f \<and>
   f_gradeToExecute (snd (Form_beSigned b f)) = f_gradeToExecute f \<and>
   f_name (snd (AForm_beSigned b g)) = f_name g \<and>
   f_gradeToSign (snd (AForm_beSigned b g)) = f_gradeToSign g \<and>
   f_gradeToExecute (snd (AForm_beSigned b g)) = f_gradeToExecute g \<and>
   f_name (fst (Form_assign p q hf w) r) = f_name (hf r) \<and>
   f_gradeToSign (fst (Form_assign p q hf w) r) = f_gradeToSign (hf r) \<and>
   f_gradeToExecute (fst (Form_assign p q hf w) r) = f_gradeToExecute (hf r) \<and>
   f_name (fst (foldl form_step (h, w) xs) r) = f_name (h r) \<and>
   f_gradeToSign (fst (foldl form_step (h, w) xs) r) = f_gradeToSign (h r) \<and>
   f_gradeToExecute (fst (foldl form_step (h, w) xs) r) = f_gradeToExecute (h r)"
proof -
  have ctor: "(\<exists>f. fst (Form_ctor name s e w) = Inr f) = (1 \<le> s \<and> s \<le> 150 \<and> 1 \<le> e \<and> e \<le> 150)"
    "(\<exists>f. fst (AForm_ctor name s e w) = Inr f) = (1 \<le> s \<and> s \<le> 150 \<and> 1 \<le> e \<and> e \<le> 150)"
    by (auto simp add: Form_ctor_def AForm_ctor_def Let_def)
  have ok: "1 \<le> s \<and> s \<le> 150 \<and> 1 \<le> e \<and> e \<le> 150 \<longrightarrow>
      fst (Form_ctor name s e w) =
        Inr \<lparr>f_name = name, f_signed = False, f_gradeToSign = s, f_gradeToExecute = e\<rparr> \<and>
      fst (AForm_ctor name s e w) =
        Inr \<lparr>f_name = name, f_signed = False, f_gradeToSign = s, f_gradeToExecute = e\<rparr>"
    by (simp add: Form_ctor_def AForm_ctor_def Let_def)
  have high: "s < 1 \<or> e < 1 \<longrightarrow>
      fst (Form_ctor name s e w) = Inl GradeTooHighException \<and>
      fst (AForm_ctor name s e w) = Inl GradeTooHighException"
    by (simp add: Form_ctor_def AForm_ctor_def Let_def)
  have low: "1 \<le> s \<and> 1 \<le> e \<and> (150 < s \<or> 150 < e) \<longrightarrow>
      fst (Form_ctor name s e w) = Inl GradeTooLowException \<and>
      fst (AForm_ctor name s e w) = Inl GradeTooLowException"
    by (auto simp add: Form_ctor_def AForm_ctor_def Let_def)
  have sign: "f_name (snd (Form_beSigned b f)) = f_name f \<and>
      f_gradeToSign (snd (Form_beSigned b f)) = f_gradeToSign f \<and>
      f_gradeToExecute (snd (Form_beSigned b f)) = f_gradeToExecute f \<and>
      f_name (snd (AForm_beSigned b g)) = f_name g \<and>
      f_gradeToSign (snd (AForm_beSigned b g)) = f_gradeToSign g \<and>
      f_gradeToExecute (snd (AForm_beSigned b g)) = f_gradeToExecute g"
    by (simp add: Form_beSigned_def AForm_beSigned_def)
  have assign: "f_name (fst (Form_assign p q hf w) r) = f_name (hf r) \<and>
      f_gradeToSign (fst (Form_assign p q hf w) r) = f_gradeToSign (hf r) \<and>
      f_gradeToExecute (fst (Form_assign p q hf w) r) = f_gradeToExecute (hf r)"
    by (simp add: Form_assign_def Let_def)
  show ?thesis
    using ctor ok high low sign assign form_run_const [of h w xs r] by blast
qed

text \<open>
  Tests 1 to 3 of ex01/main.cpp: the tax form (50, 25) is built; (0, 50) is refused as too
  high and (50, 151) as too low. A form built with (10, 5) keeps its grades and its name
  through a refused signature, an accepted one, an assignment and an execution.
\<close>

theorem C5_thresholds_witness:
  "fst (Form_ctor ''Tax Form'' 50 25 empty_world) =
     Inr \<lparr>f_name = ''Tax Form'', f_signed = False, f_gradeToSign = 50, f_gradeToExecute = 25\<rparr> \<and>
   fst (AForm_ctor ''Invalid Form'' 0 50 empty_world) = Inl GradeTooHighException \<and>
   fst (AForm_ctor ''Invalid Form'' 50 151 empty_world) = Inl GradeTooLowException \<and>
   fst (AForm_ctor ''Invalid Form'' 0 151 empty_world) = Inl GradeTooHighException \<and>
   f_gradeToSign (fst (foldl form_step
      (\<lambda>a. \<lparr>f_name = ''Restricted Form'', f_signed = False, f_gradeToSign = 10,
             f_gradeToExecute = 5, f_class = PresidentialPardonForm, f_target = ''Ford''\<rparr>,
       empty_world)
      [BeSigned 0 \<lparr>b_name = ''Dave'', b_grade = 150\<rparr>,
       BeSigned 0 \<lparr>b_name = ''Charlie'', b_grade = 1\<rparr>,
       Assign 1 0,
       Execute 1 \<lparr>b_name = ''Charlie'', b_grade = 1\<rparr>]) 1) = 10"
proof -
  let ?b = "\<lparr>b_name = ''Charlie'', b_grade = 1\<rparr>"
  let ?f = "\<lparr>f_name = ''Tax Form'', f_signed = False, f_gradeToSign = 50, f_gradeToExecute = 25\<rparr>"
  let ?h = "\<lambda>a::nat. \<lparr>f_name = ''Restricted Form'', f_signed = False, f_gradeToSign = 10,
             f_gradeToExecute = 5, f_class = PresidentialPardonForm, f_target = ''Ford''\<rparr>"
  let ?xs = "[BeSigned 0 \<lparr>b_name = ''Dave'', b_grade = 150\<rparr>,
       BeSigned 0 \<lparr>b_name = ''Charlie'', b_grade = 1\<rparr>,
       Assign 1 0,
       Execute 1 \<lparr>b_name = ''Charlie'', b_grade = 1\<rparr>]"
  show ?thesis
    using
      C5_thresholds [of "''Tax Form''" 50 25 empty_world ?b ?f ?f 0 1 "\<lambda>a. ?f" 1 ?h ?xs]
      C5_thresholds [of "''Invalid Form''" 0 50 empty_world ?b ?f ?f 0 1 "\<lambda>a. ?f" 1 ?h ?xs]
      C5_thresholds [of "''Invalid Form''" 50 151 empty_world ?b ?f ?f 0 1 "\<lambda>a. ?f" 1 ?h ?xs]
      C5_thresholds [of "''Invalid Form''" 0 151 empty_world ?b ?f ?f 0 1 "\<lambda>a. ?f" 1 ?h ?xs]
    by simp
qed

section \<open>The signed flag\<close>

lemma form_step_signed:
  "\<not> is_Assign x \<Longrightarrow>
   f_signed (fst (form_step (h, w) x) p) =
     (f_signed (h p) \<or> (\<exists>b. x = BeSigned p b \<and> getGrade b \<le> f_gradeToSign (h p)))"
  by (cases x) (auto simp add: AForm_beSigned_def)

lemma form_run_signed:
  "\<forall>x \<in> set xs. \<not> is_Assign x \<Longrightarrow>
   f_signed (fst (foldl form_step (h, w) xs) p) =
     (f_signed (h p) \<or> (\<exists>b. BeSigned p b \<in> set xs \<and> getGrade b \<le> f_gradeToSign (h p)))"
proof (induction xs arbitrary: h w)
  case Nil
  show ?case by simp
next
  case (Cons x xs)
  obtain h1 w1 where s: "form_step (h, w) x = (h1, w1)"
    by (cases "form_step (h, w) x")
  have h1: "h1 = fst (form_step (h, w) x)"
    by (simp add: s)
  have thr: "f_gradeToSign (h1 p) = f_gradeToSign (h p)"
    using form_step_const [of h w x p] by (simp add: h1)
  have now: "f_signed (h1 p) =
      (f_signed (h p) \<or> (\<exists>b. x = BeSigned p b \<and> getGrade b \<le> f_gradeToSign (h p)))"
    using Cons.prems form_step_signed [of x h w p] by (simp add: h1)
  have later: "f_signed (fst (foldl form_step (h1, w1) xs) p) =
      (f_signed (h1 p) \<or> (\<exists>b. BeSigned p b \<in> set xs \<and> getGrade b \<le> f_gradeToSign (h1 p)))"
    using Cons.prems by (intro Cons.IH) simp
  show ?case
    using later now thr by (auto simp add: s)
qed

lemma ShrubberyCreationForm_ctor_ok:
  "ShrubberyCreationForm_ctor target w =
     (Inr \<lparr>f_name = ''Shrubbery Creation Form'', f_signed = False, f_gradeToSign = 145,
            f_gradeToExecute = 137, f_class = ShrubberyCreationForm, f_target = target\<rparr>,
      w\<lparr>cout := cout w @ [''AForm parametric constructor called'',
                           ''ShrubberyCreationForm parametric constructor called'']\<rparr>)"
  by (simp add: ShrubberyCreationForm_ctor_def AForm_ctor_ok derived_def cout_line_def)

lemma RobotomyRequestForm_ctor_ok:
  "RobotomyRequestForm_ctor target w =
     (Inr \<lparr>f_name = ''Robotomy Request Form'', f_signed = False, f_gradeToSign = 72,
            f_gradeToExecute = 45, f_class = RobotomyRequestForm, f_target = target\<rparr>,
      w\<lparr>cout := cout w @ [''AForm parametric constructor called'',
                           ''RobotomyRequestForm parametric constructor called'']\<rparr>)"
  by (simp add: RobotomyRequestForm_ctor_def AForm_ctor_ok derived_def cout_line_def)

lemma PresidentialPardonForm_ctor_ok:
  "PresidentialPardonForm_ctor target w =
     (Inr \<lparr>f_name = ''Presidential Pardon Form'', f_signed = False, f_gradeToSign = 25,
            f_gradeToExecute = 5, f_class = PresidentialPardonForm, f_target = target\<rparr>,
      w\<lparr>cout := cout w @ [''AForm parametric constructor called'',
                           ''PresidentialPardonForm parametric constructor called'']\<rparr>)"
  by (simp add: PresidentialPardonForm_ctor_def AForm_ctor_ok derived_def cout_line_def)

text \<open>
  C3 as stated does not hold: assignment copies the flag of its right operand, so
  assigning an unsigned form to a signed one clears the flag of the signed one. Address 0
  holds a signed form and address 1 an unsigned one; after \<open>*0 = *1\<close> the form at 0 is
  unsigned, in \<open>Form\<close> and in \<open>AForm\<close>.
\<close>

theorem C3_counterexample:
  "f_signed ((\<lambda>a::nat. \<lparr>f_name = ''Original Form'', f_signed = (a = 0), f_gradeToSign = 75,
                        f_gradeToExecute = 50\<rparr>) 0) \<and>
   \<not> f_signed (fst (Form_assign 0 1
      (\<lambda>a. \<lparr>f_name = ''Original Form'', f_signed = (a = 0), f_gradeToSign = 75,
             f_gradeToExecute = 50\<rparr>) empty_world) 0) \<and>
   \<not> f_signed (fst (AForm_assign 0 1
      (\<lambda>a. \<lparr>f_name = ''Original Form'', f_signed = (a = 0), f_gradeToSign = 75,
             f_gradeToExecute = 50\<rparr>) empty_world) 0)"
  by (simp add: Form_assign_def AForm_assign_def Let_def)

text \<open>
  C3, amended. The default and the parametric constructors of \<open>Form\<close> and \<open>AForm\<close>, and
  the constructors of the three concrete forms, build an unsigned form. In a run of
  \<open>beSigned\<close> and \<open>execute\<close> calls (no assignment) the flag of a form is never reset, and it
  is set at the end exactly when it was set at the start or the run holds a \<open>beSigned\<close>
  on that form by a bureaucrat whose grade is at most its grade to sign, that is, a
  signature that succeeded. The copy constructor and assignment give the new or the left
  object the flag of the source, whatever it is.
\<close>

theorem C3_signed_flag:
  "\<not> f_signed (fst (Form_default w)) \<and>
   \<not> f_signed (fst (AForm_default w)) \<and>
   (\<forall>f. fst (Form_ctor name s e w) = Inr f \<longrightarrow> \<not> f_signed f) \<and>
   (\<forall>f. fst (AForm_ctor name s e w) = Inr f \<longrightarrow> \<not> f_signed f) \<and>
   (\<exists>f. fst (ShrubberyCreationForm_ctor target w) = Inr f \<and> \<not> f_signed f) \<and>
   (\<exists>f. fst (RobotomyRequestForm_ctor target w) = Inr f \<and> \<not> f_signed f) \<and>
   (\<exists>f. fst (PresidentialPardonForm_ctor target w) = Inr f \<and> \<not> f_signed f) \<and>
   ((\<forall>x \<in> set xs. \<not> is_Assign x) \<longrightarrow>
      (f_signed (h p) \<longrightarrow> f_signed (fst (foldl form_step (h, w) xs) p)) \<and>
      f_signed (fst (foldl form_step (h, w) xs) p) =
        (f_signed (h p) \<or>
         (\<exists>b. BeSigned p b \<in> set xs \<and> getGrade b \<le> f_gradeToSign (h p)))) \<and>
   f_signed (fst (Form_copy f0 w)) = f_signed f0 \<and>
   f_signed (fst (AForm_copy g0 w)) = f_signed g0 \<and>
   f_signed (fst (Form_assign p q hf w) p) = f_signed (hf q) \<and>
   f_signed (fst (AForm_assign p q h w) p) = f_signed (h q)"
proof -
  have build: "\<not> f_signed (fst (Form_default w)) \<and>
      \<not> f_signed (fst (AForm_default w)) \<and>
      (\<forall>f. fst (Form_ctor name s e w) = Inr f \<longrightarrow> \<not> f_signed f) \<and>
      (\<forall>f. fst (AForm_ctor name s e w) = Inr f \<longrightarrow> \<not> f_signed f)"
    by (auto simp add: Form_default_def AForm_default_def Form_ctor_def AForm_ctor_def Let_def
        split: if_splits)
  have concrete: "(\<exists>f. fst (ShrubberyCreationForm_ctor target w) = Inr f \<and> \<not> f_signed f) \<and>
      (\<exists>f. fst (RobotomyRequestForm_ctor target w) = Inr f \<and> \<not> f_signed f) \<and>
      (\<exists>f. fst (PresidentialPardonForm_ctor target w) = Inr f \<and> \<not> f_signed f)"
    by (simp add: ShrubberyCreationForm_ctor_ok RobotomyRequestForm_ctor_ok
        PresidentialPardonForm_ctor_ok)
  have run: "(\<forall>x \<in> set xs. \<not> is_Assign x) \<longrightarrow>
      (f_signed (h p) \<longrightarrow> f_signed (fst (foldl form_step (h, w) xs) p)) \<and>
      f_signed (fst (foldl form_step (h, w) xs) p) =
        (f_signed (h p) \<or>
         (\<exists>b. BeSigned p b \<in> set xs \<and> getGrade b \<le> f_gradeToSign (h p)))"
    using form_run_signed [of xs h w p] by blast
  have copy: "f_signed (fst (Form_copy f0 w)) = f_signed f0 \<and>
      f_signed (fst (AForm_copy g0 w)) = f_signed g0 \<and>
      f_signed (fst (Form_assign p q hf w) p) = f_signed (hf q) \<and>
      f_signed (fst (AForm_assign p q h w) p) = f_signed (h q)"
    by (simp add: Form_copy_def AForm_copy_def Form_assign_def AForm_assign_def Let_def)
  show ?thesis
    using build concrete run copy by blast
qed

text \<open>
  Test 6 of ex01/main.cpp as a run on the form at address 0: Dave (150) is refused,
  Charlie (1) signs, then executes; the form ends signed, and it would not without
  Charlie's signature.
\<close>

theorem C3_signed_flag_witness:
  "f_signed (fst (foldl form_step
      (\<lambda>a. \<lparr>f_name = ''Restricted Form'', f_signed = False, f_gradeToSign = 10,
             f_gradeToExecute = 5, f_class = PresidentialPardonForm, f_target = ''Ford''\<rparr>,
       empty_world)
      [BeSigned 0 \<lparr>b_name = ''Dave'', b_grade = 150\<rparr>,
       BeSigned 0 \<lparr>b_name = ''Charlie'', b_grade = 1\<rparr>,
       Execute 0 \<lparr>b_name = ''Charlie'', b_grade = 1\<rparr>]) 0) \<and>
   \<not> f_signed (fst (foldl form_step
      (\<lambda>a. \<lparr>f_name = ''Restricted Form'', f_signed = False, f_gradeToSign = 10,
             f_gradeToExecute = 5, f_class = PresidentialPardonForm, f_target = ''Ford''\<rparr>,
       empty_world)
      [BeSigned 0 \<lparr>b_name = ''Dave'', b_grade = 150\<rparr>,
       Execute 0 \<lparr>b_name = ''Charlie'', b_grade = 1\<rparr>]) 0)"
proof -
  let ?f = "\<lparr>f_name = ''Restricted Form'', f_signed = False, f_gradeToSign = 10,
             f_gradeToExecute = 5\<rparr>"
  let ?h = "\<lambda>a::nat. \<lparr>f_name = ''Restricted Form'', f_signed = False, f_gradeToSign = 10,
             f_gradeToExecute = 5, f_class = PresidentialPardonForm, f_target = ''Ford''\<rparr>"
  let ?xs = "[BeSigned 0 \<lparr>b_name = ''Dave'', b_grade = 150\<rparr>,
       BeSigned 0 \<lparr>b_name = ''Charlie'', b_grade = 1\<rparr>,
       Execute 0 \<lparr>b_name = ''Charlie'', b_grade = 1\<rparr>]"
  let ?ys = "[BeSigned 0 \<lparr>b_name = ''Dave'', b_grade = 150\<rparr>,
       Execute 0 \<lparr>b_name = ''Charlie'', b_grade = 1\<rparr>]"
  show ?thesis
    using
      C3_signed_flag [of empty_world "''Restricted Form''" 10 5 "''Ford''" ?xs ?h 0 ?f ?f 0 "\<lambda>a. ?f"]
      C3_signed_flag [of empty_world "''Restricted Form''" 10 5 "''Ford''" ?ys ?h 0 ?f ?f 0 "\<lambda>a. ?f"]
    by (simp add: getGrade_def AForm_beSigned_def)
qed

section \<open>Assignment\<close>

text \<open>
  C10. \<open>Form::operator=\<close> and \<open>AForm::operator=\<close> change one thing: the object assigned
  to takes the signed flag of the other. It keeps its own name, its own grade to sign and
  its own grade to execute (and, seen as an \<open>AForm\<close>, everything its derived class adds);
  no other object of the store changes. So assigning an unsigned form to a signed one
  clears the flag. Assigning an object to itself changes nothing. The assignments of the
  three derived classes call \<open>AForm::operator=\<close> and then copy the target as well.
\<close>

theorem C10_assign:
  fixes hf :: "nat \<Rightarrow> Form" and h :: "nat \<Rightarrow> 'a Form_scheme" and hc :: "nat \<Rightarrow> ConcreteForm"
  shows
  "fst (Form_assign p q hf w) = hf(p := (hf p)\<lparr>f_signed := f_signed (hf q)\<rparr>) \<and>
   fst (AForm_assign p q h w) = h(p := (h p)\<lparr>f_signed := f_signed (h q)\<rparr>) \<and>
   f_signed (fst (Form_assign p q hf w) p) = f_signed (hf q) \<and>
   f_name (fst (Form_assign p q hf w) p) = f_name (hf p) \<and>
   f_gradeToSign (fst (Form_assign p q hf w) p) = f_gradeToSign (hf p) \<and>
   f_gradeToExecute (fst (Form_assign p q hf w) p) = f_gradeToExecute (hf p) \<and>
   f_signed (fst (AForm_assign p q h w) p) = f_signed (h q) \<and>
   f_name (fst (AForm_assign p q h w) p) = f_name (h p) \<and>
   f_gradeToSign (fst (AForm_assign p q h w) p) = f_gradeToSign (h p) \<and>
   f_gradeToExecute (fst (AForm_assign p q h w) p) = f_gradeToExecute (h p) \<and>
   (f_signed (hf p) \<and> \<not> f_signed (hf q) \<longrightarrow> \<not> f_signed (fst (Form_assign p q hf w) p)) \<and>
   (f_signed (h p) \<and> \<not> f_signed (h q) \<longrightarrow> \<not> f_signed (fst (AForm_assign p q h w) p)) \<and>
   fst (Form_assign p p hf w) = hf \<and>
   fst (AForm_assign p p h w) = h \<and>
   fst (ShrubberyCreationForm_assign p q hc w) =
     hc(p := (hc p)\<lparr>f_signed := f_signed (hc q), f_target := f_target (hc q)\<rparr>) \<and>
   fst (RobotomyRequestForm_assign p q hc w) =
     hc(p := (hc p)\<lparr>f_signed := f_signed (hc q), f_target := f_target (hc q)\<rparr>) \<and>
   fst (PresidentialPardonForm_assign p q hc w) =
     hc(p := (hc p)\<lparr>f_signed := f_signed (hc q), f_target := f_target (hc q)\<rparr>)"
proof -
  have base: "fst (Form_assign p q hf w) = hf(p := (hf p)\<lparr>f_signed := f_signed (hf q)\<rparr>)"
    "fst (AForm_assign p q h w) = h(p := (h p)\<lparr>f_signed := f_signed (h q)\<rparr>)"
    by (simp_all add: Form_assign_def AForm_assign_def Let_def)
  have self: "fst (Form_assign p p hf w) = hf" "fst (AForm_assign p p h w) = h"
    by (simp_all add: Form_assign_def AForm_assign_def Let_def)
  have "fst (ShrubberyCreationForm_assign p q hc w) =
      hc(p := (hc p)\<lparr>f_signed := f_signed (hc q), f_target := f_target (hc q)\<rparr>)"
    by (simp add: ShrubberyCreationForm_assign_def AForm_assign_def Let_def)
  moreover have "fst (RobotomyRequestForm_assign p q hc w) =
      hc(p := (hc p)\<lparr>f_signed := f_signed (hc q), f_target := f_target (hc q)\<rparr>)"
    by (simp add: RobotomyRequestForm_assign_def AForm_assign_def Let_def)
  moreover have "fst (PresidentialPardonForm_assign p q hc w) =
      hc(p := (hc p)\<lparr>f_signed := f_signed (hc q), f_target := f_target (hc q)\<rparr>)"
    by (simp add: PresidentialPardonForm_assign_def AForm_assign_def Let_def)
  ultimately show ?thesis
    using self by (simp add: base)
qed

text \<open>
  Test 7 of ex01/main.cpp and its converse: address 0 holds the signed original (75, 50),
  address 1 the unsigned ``Assigned Form'' (100, 100). After \<open>*1 = *0\<close> the assigned form is
  signed and still named ``Assigned Form'' with grades 100 and 100; after \<open>*0 = *1\<close> the
  original is unsigned.
\<close>

theorem C10_assign_witness:
  "fst (Form_assign 1 0
      (\<lambda>a. if a = 0
         then \<lparr>f_name = ''Original Form'', f_signed = True, f_gradeToSign = 75, f_gradeToExecute = 50\<rparr>
         else \<lparr>f_name = ''Assigned Form'', f_signed = False, f_gradeToSign = 100, f_gradeToExecute = 100\<rparr>)
      empty_world) 1
   = \<lparr>f_name = ''Assigned Form'', f_signed = True, f_gradeToSign = 100, f_gradeToExecute = 100\<rparr> \<and>
   fst (AForm_assign 0 1
      (\<lambda>a. if a = 0
         then \<lparr>f_name = ''Original Form'', f_signed = True, f_gradeToSign = 75, f_gradeToExecute = 50\<rparr>
         else \<lparr>f_name = ''Assigned Form'', f_signed = False, f_gradeToSign = 100, f_gradeToExecute = 100\<rparr>)
      empty_world) 0
   = \<lparr>f_name = ''Original Form'', f_signed = False, f_gradeToSign = 75, f_gradeToExecute = 50\<rparr>"
proof -
  let ?hf = "\<lambda>a::nat. if a = 0
         then \<lparr>f_name = ''Original Form'', f_signed = True, f_gradeToSign = 75, f_gradeToExecute = 50\<rparr>
         else \<lparr>f_name = ''Assigned Form'', f_signed = False, f_gradeToSign = 100, f_gradeToExecute = 100\<rparr>"
  let ?hc = "\<lambda>a::nat. \<lparr>f_name = ''Shrubbery Creation Form'', f_signed = (a = 0),
      f_gradeToSign = 145, f_gradeToExecute = 137, f_class = ShrubberyCreationForm,
      f_target = (if a = 0 then ''original_garden'' else ''assigned_garden'')\<rparr>"
  show ?thesis
    using C10_assign [of 1 0 ?hf empty_world ?hf ?hc] C10_assign [of 0 1 ?hf empty_world ?hf ?hc]
    by simp
qed


section \<open>The grade of a bureaucrat\<close>

lemma grade_step_range:
  "1 \<le> b_grade b \<and> b_grade b \<le> 150 \<Longrightarrow>
   1 \<le> b_grade (grade_step b x) \<and> b_grade (grade_step b x) \<le> 150"
  by (cases x) (simp_all add: incrementGrade_def decrementGrade_def)

lemma grade_run_range:
  "1 \<le> b_grade b \<and> b_grade b \<le> 150 \<Longrightarrow>
   1 \<le> b_grade (foldl grade_step b xs) \<and> b_grade (foldl grade_step b xs) \<le> 150"
proof (induction xs arbitrary: b)
  case Nil
  then show ?case by simp
next
  case (Cons x xs)
  from grade_step_range [OF Cons.prems, of x] show ?case
    by (simp add: Cons.IH)
qed

text \<open>
  C4. The constructor returns a bureaucrat exactly for a grade between 1 and 150, with
  that grade; below 1 it throws \<open>GradeTooHighException\<close>, above 150
  \<open>GradeTooLowException\<close>. \<open>incrementGrade\<close> throws \<open>GradeTooHighException\<close> and changes
  nothing when the grade minus one is below 1, as at grade 1, and otherwise takes one
  off; \<open>decrementGrade\<close> throws \<open>GradeTooLowException\<close> and changes nothing when the grade
  plus one is above 150, as at grade 150, and otherwise adds one. Hence a bureaucrat that
  was constructed has a grade between 1 and 150 after any run of the two methods, each
  call left as it ended, returned or thrown.
\<close>

theorem C4_grade:
  "((\<exists>b0. Bureaucrat_ctor name g = Inr b0) = (1 \<le> g \<and> g \<le> 150)) \<and>
   (1 \<le> g \<and> g \<le> 150 \<longrightarrow> Bureaucrat_ctor name g = Inr \<lparr>b_name = name, b_grade = g\<rparr>) \<and>
   (g < 1 \<longrightarrow> Bureaucrat_ctor name g = Inl GradeTooHighException) \<and>
   (150 < g \<longrightarrow> Bureaucrat_ctor name g = Inl GradeTooLowException) \<and>
   (b_grade b - 1 < 1 \<longrightarrow> incrementGrade b = (Inl GradeTooHighException, b)) \<and>
   (b_grade b = 1 \<longrightarrow> incrementGrade b = (Inl GradeTooHighException, b)) \<and>
   (1 \<le> b_grade b - 1 \<longrightarrow> incrementGrade b = (Inr (), b\<lparr>b_grade := b_grade b - 1\<rparr>)) \<and>
   (150 < b_grade b + 1 \<longrightarrow> decrementGrade b = (Inl GradeTooLowException, b)) \<and>
   (b_grade b = 150 \<longrightarrow> decrementGrade b = (Inl GradeTooLowException, b)) \<and>
   (b_grade b + 1 \<le> 150 \<longrightarrow> decrementGrade b = (Inr (), b\<lparr>b_grade := b_grade b + 1\<rparr>)) \<and>
   (\<forall>b0. Bureaucrat_ctor name g = Inr b0 \<longrightarrow>
      1 \<le> b_grade (foldl grade_step b0 xs) \<and> b_grade (foldl grade_step b0 xs) \<le> 150)"
proof -
  have ctor: "((\<exists>b0. Bureaucrat_ctor name g = Inr b0) = (1 \<le> g \<and> g \<le> 150)) \<and>
      (1 \<le> g \<and> g \<le> 150 \<longrightarrow> Bureaucrat_ctor name g = Inr \<lparr>b_name = name, b_grade = g\<rparr>) \<and>
      (g < 1 \<longrightarrow> Bureaucrat_ctor name g = Inl GradeTooHighException) \<and>
      (150 < g \<longrightarrow> Bureaucrat_ctor name g = Inl GradeTooLowException)"
    by (auto simp add: Bureaucrat_ctor_def)
  have inc: "(b_grade b - 1 < 1 \<longrightarrow> incrementGrade b = (Inl GradeTooHighException, b)) \<and>
      (b_grade b = 1 \<longrightarrow> incrementGrade b = (Inl GradeTooHighException, b)) \<and>
      (1 \<le> b_grade b - 1 \<longrightarrow> incrementGrade b = (Inr (), b\<lparr>b_grade := b_grade b - 1\<rparr>))"
    by (simp add: incrementGrade_def)
  have dec: "(150 < b_grade b + 1 \<longrightarrow> decrementGrade b = (Inl GradeTooLowException, b)) \<and>
      (b_grade b = 150 \<longrightarrow> decrementGrade b = (Inl GradeTooLowException, b)) \<and>
      (b_grade b + 1 \<le> 150 \<longrightarrow> decrementGrade b = (Inr (), b\<lparr>b_grade := b_grade b + 1\<rparr>))"
    by (simp add: decrementGrade_def)
  have run: "\<forall>b0. Bureaucrat_ctor name g = Inr b0 \<longrightarrow>
      1 \<le> b_grade (foldl grade_step b0 xs) \<and> b_grade (foldl grade_step b0 xs) \<le> 150"
  proof (intro allI impI)
    fix b0
    assume "Bureaucrat_ctor name g = Inr b0"
    then have "1 \<le> b_grade b0 \<and> b_grade b0 \<le> 150"
      by (auto simp add: Bureaucrat_ctor_def split: if_splits)
    then show "1 \<le> b_grade (foldl grade_step b0 xs) \<and> b_grade (foldl grade_step b0 xs) \<le> 150"
      by (rule grade_run_range)
  qed
  show ?thesis
    using ctor inc dec run by blast
qed

text \<open>
  Tests 2, 3, 6 and 7 of ex00/main.cpp: grade 0 is too high and grade 151 too low; Frank
  at grade 1 cannot be incremented, Grace at grade 150 cannot be decremented. Dave,
  built at grade 2, stays within the range through three increments and a decrement.
\<close>

theorem C4_grade_witness:
  "Bureaucrat_ctor ''Alice'' 0 = Inl GradeTooHighException \<and>
   Bureaucrat_ctor ''Charlie'' 151 = Inl GradeTooLowException \<and>
   Bureaucrat_ctor ''Dave'' 2 = Inr \<lparr>b_name = ''Dave'', b_grade = 2\<rparr> \<and>
   incrementGrade \<lparr>b_name = ''Frank'', b_grade = 1\<rparr> =
     (Inl GradeTooHighException, \<lparr>b_name = ''Frank'', b_grade = 1\<rparr>) \<and>
   decrementGrade \<lparr>b_name = ''Grace'', b_grade = 150\<rparr> =
     (Inl GradeTooLowException, \<lparr>b_name = ''Grace'', b_grade = 150\<rparr>) \<and>
   1 \<le> b_grade (foldl grade_step \<lparr>b_name = ''Dave'', b_grade = 2\<rparr>
          [Increment, Increment, Increment, Decrement]) \<and>
   b_grade (foldl grade_step \<lparr>b_name = ''Dave'', b_grade = 2\<rparr>
          [Increment, Increment, Increment, Decrement]) \<le> 150"
  using
    C4_grade [of "''Alice''" 0 "\<lparr>b_name = ''Frank'', b_grade = 1\<rparr>" "[]"]
    C4_grade [of "''Charlie''" 151 "\<lparr>b_name = ''Grace'', b_grade = 150\<rparr>" "[]"]
    C4_grade [of "''Dave''" 2 "\<lparr>b_name = ''Frank'', b_grade = 1\<rparr>"
      "[Increment, Increment, Increment, Decrement]"]
  by simp

section \<open>The intern\<close>

lemma makeForm_cases:
  "makeForm formName target w =
     (if formName = ''shrubbery creation'' then
        ShrubberyCreationForm_ctor target (cout_line (''Intern creates '' @ formName) w)
      else if formName = ''robotomy request'' then
        RobotomyRequestForm_ctor target (cout_line (''Intern creates '' @ formName) w)
      else if formName = ''presidential pardon'' then
        PresidentialPardonForm_ctor target (cout_line (''Intern creates '' @ formName) w)
      else
        (Inl FormNotFoundException,
         cout_line (''Error: Form '' @ [CHR 0x22] @ formName @ [CHR 0x22] @ '' does not exist'') w))"
proof -
  have l3: "makeForm_loop 3 formName target w =
      (Inl FormNotFoundException,
       cout_line (''Error: Form '' @ [CHR 0x22] @ formName @ [CHR 0x22] @ '' does not exist'') w)"
    by (subst makeForm_loop.simps) simp
  have l2: "makeForm_loop 2 formName target w =
      (if formName = ''presidential pardon'' then
         PresidentialPardonForm_ctor target (cout_line (''Intern creates '' @ formName) w)
       else makeForm_loop 3 formName target w)"
    by (subst makeForm_loop.simps)
       (simp add: formNames_def formCreators_def createPresidentialPardonForm_def)
  have l1: "makeForm_loop 1 formName target w =
      (if formName = ''robotomy request'' then
         RobotomyRequestForm_ctor target (cout_line (''Intern creates '' @ formName) w)
       else makeForm_loop 2 formName target w)"
    by (subst makeForm_loop.simps)
       (simp add: formNames_def formCreators_def createRobotomyRequestForm_def)
  have l0: "makeForm_loop 0 formName target w =
      (if formName = ''shrubbery creation'' then
         ShrubberyCreationForm_ctor target (cout_line (''Intern creates '' @ formName) w)
       else makeForm_loop 1 formName target w)"
    by (subst makeForm_loop.simps)
       (simp add: formNames_def formCreators_def createShrubberyCreationForm_def)
  show ?thesis
    by (simp only: makeForm_def l0 l1 l2 l3)
qed

text \<open>
  C6. \<open>Intern::makeForm\<close> returns a form exactly when the name is, byte for byte, one of
  ``shrubbery creation'', ``robotomy request'' and ``presidential pardon''. It then
  announces the creation and returns what the constructor of the matching class builds
  for the target: a fresh, unsigned form of that class. For every other name, the empty
  one among them, it prints the error line and throws \<open>FormNotFoundException\<close>.
\<close>

theorem C6_makeForm:
  "makeForm ''shrubbery creation'' target w =
     ShrubberyCreationForm_ctor target (cout_line ''Intern creates shrubbery creation'' w) \<and>
   makeForm ''robotomy request'' target w =
     RobotomyRequestForm_ctor target (cout_line ''Intern creates robotomy request'' w) \<and>
   makeForm ''presidential pardon'' target w =
     PresidentialPardonForm_ctor target (cout_line ''Intern creates presidential pardon'' w) \<and>
   fst (makeForm ''shrubbery creation'' target w) =
     Inr \<lparr>f_name = ''Shrubbery Creation Form'', f_signed = False, f_gradeToSign = 145,
          f_gradeToExecute = 137, f_class = ShrubberyCreationForm, f_target = target\<rparr> \<and>
   fst (makeForm ''robotomy request'' target w) =
     Inr \<lparr>f_name = ''Robotomy Request Form'', f_signed = False, f_gradeToSign = 72,
          f_gradeToExecute = 45, f_class = RobotomyRequestForm, f_target = target\<rparr> \<and>
   fst (makeForm ''presidential pardon'' target w) =
     Inr \<lparr>f_name = ''Presidential Pardon Form'', f_signed = False, f_gradeToSign = 25,
          f_gradeToExecute = 5, f_class = PresidentialPardonForm, f_target = target\<rparr> \<and>
   ((\<exists>f. fst (makeForm formName target w) = Inr f) =
      (formName = ''shrubbery creation'' \<or> formName = ''robotomy request'' \<or>
       formName = ''presidential pardon'')) \<and>
   (formName \<noteq> ''shrubbery creation'' \<and> formName \<noteq> ''robotomy request'' \<and>
    formName \<noteq> ''presidential pardon'' \<longrightarrow>
      makeForm formName target w =
        (Inl FormNotFoundException,
         cout_line (''Error: Form '' @ [CHR 0x22] @ formName @ [CHR 0x22] @ '' does not exist'') w)) \<and>
   fst (makeForm [] target w) = Inl FormNotFoundException"
proof -
  have known: "makeForm ''shrubbery creation'' target w =
      ShrubberyCreationForm_ctor target (cout_line ''Intern creates shrubbery creation'' w)"
    "makeForm ''robotomy request'' target w =
      RobotomyRequestForm_ctor target (cout_line ''Intern creates robotomy request'' w)"
    "makeForm ''presidential pardon'' target w =
      PresidentialPardonForm_ctor target (cout_line ''Intern creates presidential pardon'' w)"
    by (simp_all add: makeForm_cases)
  have built: "fst (makeForm ''shrubbery creation'' target w) =
      Inr \<lparr>f_name = ''Shrubbery Creation Form'', f_signed = False, f_gradeToSign = 145,
           f_gradeToExecute = 137, f_class = ShrubberyCreationForm, f_target = target\<rparr>"
    "fst (makeForm ''robotomy request'' target w) =
      Inr \<lparr>f_name = ''Robotomy Request Form'', f_signed = False, f_gradeToSign = 72,
           f_gradeToExecute = 45, f_class = RobotomyRequestForm, f_target = target\<rparr>"
    "fst (makeForm ''presidential pardon'' target w) =
      Inr \<lparr>f_name = ''Presidential Pardon Form'', f_signed = False, f_gradeToSign = 25,
           f_gradeToExecute = 5, f_class = PresidentialPardonForm, f_target = target\<rparr>"
    by (simp_all add: known ShrubberyCreationForm_ctor_ok RobotomyRequestForm_ctor_ok
        PresidentialPardonForm_ctor_ok)
  have other: "formName \<noteq> ''shrubbery creation'' \<and> formName \<noteq> ''robotomy request'' \<and>
      formName \<noteq> ''presidential pardon'' \<longrightarrow>
      makeForm formName target w =
        (Inl FormNotFoundException,
         cout_line (''Error: Form '' @ [CHR 0x22] @ formName @ [CHR 0x22] @ '' does not exist'') w)"
    by (simp add: makeForm_cases)
  have iff: "(\<exists>f. fst (makeForm formName target w) = Inr f) =
      (formName = ''shrubbery creation'' \<or> formName = ''robotomy request'' \<or>
       formName = ''presidential pardon'')"
    using built other by (cases "formName = ''shrubbery creation''";
      cases "formName = ''robotomy request''"; cases "formName = ''presidential pardon''") auto
  have empty: "fst (makeForm [] target w) = Inl FormNotFoundException"
    by (simp add: makeForm_cases)
  show ?thesis
    using known built other iff empty by blast
qed

text \<open>
  Tests 1, 3 and 6 of ex03/main.cpp: ``robotomy request'' for Bender gives the robotomy
  form; ``invalid form'' and the empty name are not found. A name that differs in case
  only is not found either.
\<close>

theorem C6_makeForm_witness:
  "fst (makeForm ''robotomy request'' ''Bender'' empty_world) =
     Inr \<lparr>f_name = ''Robotomy Request Form'', f_signed = False, f_gradeToSign = 72,
          f_gradeToExecute = 45, f_class = RobotomyRequestForm, f_target = ''Bender''\<rparr> \<and>
   makeForm ''invalid form'' ''target'' empty_world =
     (Inl FormNotFoundException,
      empty_world\<lparr>cout := [''Error: Form '' @ [CHR 0x22] @ ''invalid form'' @ [CHR 0x22] @
                             '' does not exist'']\<rparr>) \<and>
   fst (makeForm ''Robotomy Request'' ''Bender'' empty_world) = Inl FormNotFoundException \<and>
   fst (makeForm [] ''target'' empty_world) = Inl FormNotFoundException"
  using
    C6_makeForm [of "''Bender''" empty_world "''robotomy request''"]
    C6_makeForm [of "''target''" empty_world "''invalid form''"]
    C6_makeForm [of "''Bender''" empty_world "''Robotomy Request''"]
  by (simp add: cout_line_def empty_world_def)

section \<open>The grades of the concrete forms\<close>

text \<open>
  C7. Whatever the target, the constructor of \<open>ShrubberyCreationForm\<close> succeeds with grade
  to sign 145 and grade to execute 137, that of \<open>RobotomyRequestForm\<close> with 72 and 45, that
  of \<open>PresidentialPardonForm\<close> with 25 and 5, each form of its class and carrying the
  target; the default constructors give the same grades; and the form \<open>makeForm\<close> returns
  for each of the three names has the grades of its class and the target.
\<close>

theorem C7_grades:
  "(\<exists>f. fst (ShrubberyCreationForm_ctor target w) = Inr f \<and> f_gradeToSign f = 145 \<and>
        f_gradeToExecute f = 137 \<and> f_class f = ShrubberyCreationForm \<and> f_target f = target) \<and>
   (\<exists>f. fst (RobotomyRequestForm_ctor target w) = Inr f \<and> f_gradeToSign f = 72 \<and>
        f_gradeToExecute f = 45 \<and> f_class f = RobotomyRequestForm \<and> f_target f = target) \<and>
   (\<exists>f. fst (PresidentialPardonForm_ctor target w) = Inr f \<and> f_gradeToSign f = 25 \<and>
        f_gradeToExecute f = 5 \<and> f_class f = PresidentialPardonForm \<and> f_target f = target) \<and>
   (\<exists>f. fst (ShrubberyCreationForm_default w) = Inr f \<and> f_gradeToSign f = 145 \<and>
        f_gradeToExecute f = 137 \<and> f_class f = ShrubberyCreationForm) \<and>
   (\<exists>f. fst (RobotomyRequestForm_default w) = Inr f \<and> f_gradeToSign f = 72 \<and>
        f_gradeToExecute f = 45 \<and> f_class f = RobotomyRequestForm) \<and>
   (\<exists>f. fst (PresidentialPardonForm_default w) = Inr f \<and> f_gradeToSign f = 25 \<and>
        f_gradeToExecute f = 5 \<and> f_class f = PresidentialPardonForm) \<and>
   (\<exists>f. fst (makeForm ''shrubbery creation'' target w) = Inr f \<and> f_gradeToSign f = 145 \<and>
        f_gradeToExecute f = 137 \<and> f_class f = ShrubberyCreationForm \<and> f_target f = target) \<and>
   (\<exists>f. fst (makeForm ''robotomy request'' target w) = Inr f \<and> f_gradeToSign f = 72 \<and>
        f_gradeToExecute f = 45 \<and> f_class f = RobotomyRequestForm \<and> f_target f = target) \<and>
   (\<exists>f. fst (makeForm ''presidential pardon'' target w) = Inr f \<and> f_gradeToSign f = 25 \<and>
        f_gradeToExecute f = 5 \<and> f_class f = PresidentialPardonForm \<and> f_target f = target)"
proof -
  have direct: "(\<exists>f. fst (ShrubberyCreationForm_ctor target w) = Inr f \<and> f_gradeToSign f = 145 \<and>
        f_gradeToExecute f = 137 \<and> f_class f = ShrubberyCreationForm \<and> f_target f = target) \<and>
      (\<exists>f. fst (RobotomyRequestForm_ctor target w) = Inr f \<and> f_gradeToSign f = 72 \<and>
        f_gradeToExecute f = 45 \<and> f_class f = RobotomyRequestForm \<and> f_target f = target) \<and>
      (\<exists>f. fst (PresidentialPardonForm_ctor target w) = Inr f \<and> f_gradeToSign f = 25 \<and>
        f_gradeToExecute f = 5 \<and> f_class f = PresidentialPardonForm \<and> f_target f = target)"
    by (simp add: ShrubberyCreationForm_ctor_ok RobotomyRequestForm_ctor_ok
        PresidentialPardonForm_ctor_ok)
  have dflt: "(\<exists>f. fst (ShrubberyCreationForm_default w) = Inr f \<and> f_gradeToSign f = 145 \<and>
        f_gradeToExecute f = 137 \<and> f_class f = ShrubberyCreationForm) \<and>
      (\<exists>f. fst (RobotomyRequestForm_default w) = Inr f \<and> f_gradeToSign f = 72 \<and>
        f_gradeToExecute f = 45 \<and> f_class f = RobotomyRequestForm) \<and>
      (\<exists>f. fst (PresidentialPardonForm_default w) = Inr f \<and> f_gradeToSign f = 25 \<and>
        f_gradeToExecute f = 5 \<and> f_class f = PresidentialPardonForm)"
    by (simp add: ShrubberyCreationForm_default_def RobotomyRequestForm_default_def
        PresidentialPardonForm_default_def AForm_ctor_ok derived_def)
  have made: "(\<exists>f. fst (makeForm ''shrubbery creation'' target w) = Inr f \<and> f_gradeToSign f = 145 \<and>
        f_gradeToExecute f = 137 \<and> f_class f = ShrubberyCreationForm \<and> f_target f = target) \<and>
      (\<exists>f. fst (makeForm ''robotomy request'' target w) = Inr f \<and> f_gradeToSign f = 72 \<and>
        f_gradeToExecute f = 45 \<and> f_class f = RobotomyRequestForm \<and> f_target f = target) \<and>
      (\<exists>f. fst (makeForm ''presidential pardon'' target w) = Inr f \<and> f_gradeToSign f = 25 \<and>
        f_gradeToExecute f = 5 \<and> f_class f = PresidentialPardonForm \<and> f_target f = target)"
    by (simp add: makeForm_cases ShrubberyCreationForm_ctor_ok RobotomyRequestForm_ctor_ok
        PresidentialPardonForm_ctor_ok)
  show ?thesis
    using direct dflt made by blast
qed

text \<open>
  The spec's example: \<open>makeForm\<close> of ``robotomy request'' for Bender has grade to sign 72
  and grade to execute 45; the shrubbery form for \<open>garden\<close> has 145 and 137.
\<close>

theorem C7_grades_witness:
  "map_sum id (\<lambda>f. (f_gradeToSign f, f_gradeToExecute f))
     (fst (makeForm ''robotomy request'' ''Bender'' empty_world)) = Inr (72, 45) \<and>
   map_sum id (\<lambda>f. (f_gradeToSign f, f_gradeToExecute f))
     (fst (ShrubberyCreationForm_ctor ''garden'' empty_world)) = Inr (145, 137) \<and>
   map_sum id (\<lambda>f. (f_gradeToSign f, f_gradeToExecute f))
     (fst (PresidentialPardonForm_ctor ''Arthur Dent'' empty_world)) = Inr (25, 5)"
  using C7_grades [of "''Bender''" empty_world] C7_grades [of "''garden''" empty_world]
    C7_grades [of "''Arthur Dent''" empty_world]
  by auto

end
